theory Spec2Isabelle
  imports Complex_Main
begin

section \<open>Shardman: the shard coordination handlers\<close>

text \<open>
  A shallow embedding of the request handlers of \<^verbatim>\<open>src/shardman/__init__.py\<close>
  (\<^verbatim>\<open>connect\<close>, \<^verbatim>\<open>beat\<close>, \<^verbatim>\<open>disconnect\<close>, \<^verbatim>\<open>re_register\<close>) over an explicit state:
  the \<^verbatim>\<open>Shard\<close> collection, the module globals \<^verbatim>\<open>next_halt_time\<close> and
  \<^verbatim>\<open>left_before_halt\<close>, and \<^verbatim>\<open>state.total_shards\<close>.

  Each handler is one atomic step on that state. What a handler reads from its
  environment is an argument of the step: the value of \<^verbatim>\<open>datetime.now(tz=timezone.utc)\<close>
  and the string minted by \<^verbatim>\<open>ulid.new().str\<close>. The handlers are the bodies that run
  once \<^verbatim>\<open>requires_authorization\<close> has let the request through.
\<close>

subsection \<open>Data\<close>

text \<open>
  A \<^verbatim>\<open>datetime\<close> is a count of microseconds (the resolution of the Python type), so
  \<^verbatim>\<open>timedelta(seconds=n)\<close> is \<open>n * 1000000\<close>.
\<close>

type_synonym datetime = int

definition timedelta_seconds :: "int \<Rightarrow> int" where
  "timedelta_seconds n = n * 1000000"

text \<open>
  \<^verbatim>\<open>models.Shard\<close>: a document with the three fields \<^verbatim>\<open>shard_id\<close>, \<^verbatim>\<open>last_beat\<close>
  and \<^verbatim>\<open>session_id\<close>, and no other. It declares no \<^verbatim>\<open>guild_count\<close>, \<^verbatim>\<open>latency\<close>
  or \<^verbatim>\<open>extra\<close>.
\<close>

record shard =
  shard_id :: int
  last_beat :: datetime
  session_id :: string

text \<open>
  The request bodies of \<^verbatim>\<open>requests.py\<close>. The float \<^verbatim>\<open>latency\<close> is only carried,
  never computed with, and is a real here; the untyped \<^verbatim>\<open>extra\<close> is a string.
\<close>

record heartbeat =
  hb_session_id :: string
  hb_guild_count :: "int option"
  hb_latency :: "real option"
  hb_extra :: "string option"

record sessionID =
  sid_session_id :: string

record register =
  reg_shard_id :: int
  reg_max_shards :: int
  reg_active :: bool

text \<open>
  \<^verbatim>\<open>responses.ConnectConfirmed\<close>, with the four fields the handlers pass to its
  constructor. \<^verbatim>\<open>sleep_duration\<close> is one of the float literals \<^verbatim>\<open>0.0\<close> and
  \<^verbatim>\<open>5.0\<close>, both exact.
\<close>

record connect_confirmed =
  cc_shard_id :: int
  cc_max_shards :: int
  cc_session_id :: string
  cc_sleep_duration :: real

text \<open>
  \<^verbatim>\<open>HTTPException(status_code=..., detail=...)\<close>, and the \<^verbatim>\<open>ValueError\<close> that a
  document raises when an attribute is assigned that its model does not declare, with
  the name of that attribute. \<open>NoFreeIdentity\<close> is the outcome of an allocation scan
  that finds every identity taken, for which the specification names no error (see
  \<open>get_shard_id\<close>).
\<close>

datatype error = HTTPException nat string | ValueError string | NoFreeIdentity

abbreviation FleetFull :: error where
  "FleetFull \<equiv> HTTPException 401 ''No Shards Available''"

abbreviation SessionNotFound :: error where
  "SessionNotFound \<equiv> HTTPException 404 ''Session Not Found''"

abbreviation IdentityNotAvailable :: error where
  "IdentityNotAvailable \<equiv> HTTPException 409 ''Shard Not Available''"

abbreviation FleetSizeMismatch :: error where
  "FleetSizeMismatch \<equiv> HTTPException 412 ''Max Shards Mismatch''"

datatype alert_type = Connect

text \<open>
  The state the handlers share: the documents of the \<^verbatim>\<open>Shard\<close> collection in
  insertion order, \<^verbatim>\<open>state.total_shards\<close>, the two admission globals, and the
  alerts handed to \<^verbatim>\<open>state.send_alert\<close>.
\<close>

record coordinator =
  shards :: "shard list"
  total_shards :: int
  next_halt_time :: "datetime option"
  left_before_halt :: int
  alerts :: "(alert_type \<times> shard) list"

subsection \<open>The repository\<close>

text \<open>\<^verbatim>\<open>Shard.count()\<close>.\<close>

definition count :: "coordinator \<Rightarrow> int" where
  "count s = int (length (shards s))"

text \<open>
  \<^verbatim>\<open>Shard.find_one(Shard.session_id == sid)\<close>: the first document with that session
  id, together with its position, which stands for the document's \<^verbatim>\<open>_id\<close>:
  \<^verbatim>\<open>delete()\<close> acts on the document at that position.
\<close>

fun find_one :: "string \<Rightarrow> shard list \<Rightarrow> (nat \<times> shard) option" where
  "find_one sid [] = None"
| "find_one sid (x # xs) =
     (if session_id x = sid then Some (0, x)
      else map_option (\<lambda>(k, y). (Suc k, y)) (find_one sid xs))"

definition insert_shard :: "shard \<Rightarrow> coordinator \<Rightarrow> coordinator" where
  "insert_shard x s = s\<lparr>shards := shards s @ [x]\<rparr>"

definition delete_shard :: "nat \<Rightarrow> coordinator \<Rightarrow> coordinator" where
  "delete_shard k s = s\<lparr>shards := take k (shards s) @ drop (Suc k) (shards s)\<rparr>"

subsection \<open>The state manager\<close>

text \<open>The identities of the live records.\<close>

definition live_ids :: "coordinator \<Rightarrow> int list" where
  "live_ids s = map shard_id (shards s)"

text \<open>
  Modelled from the spec: \<^verbatim>\<open>StateManager.get_shard_id\<close> of \<^verbatim>\<open>shardman/state.py\<close>,
  which is not among the sources. Section 4.3: it fails with \<^verbatim>\<open>FleetFull\<close> if the
  count of live records is \<open>\<ge> total_shards\<close>; otherwise it scans the identities
  \<open>0..total_shards-1\<close> in ascending order and returns the first value not present among
  the live records' identities. The specification does not say what a scan that finds
  no such value does; that branch is \<open>NoFreeIdentity\<close> here, and \<open>scan_finds\<close> below
  shows that it is never taken.
\<close>

definition get_shard_id :: "coordinator \<Rightarrow> error + int" where
  "get_shard_id s =
     (if count s \<ge> total_shards s then Inl FleetFull
      else case find (\<lambda>i. i \<notin> set (live_ids s)) [0..total_shards s - 1] of
             Some i \<Rightarrow> Inr i
           | None \<Rightarrow> Inl NoFreeIdentity)"

text \<open>
  Modelled from the spec: \<^verbatim>\<open>StateManager.get_missing_shards\<close> of
  \<^verbatim>\<open>shardman/state.py\<close>, which is not among the sources. Section 4.3: the complement
  of the live identities within \<open>[0, total_shards)\<close>.
\<close>

definition get_missing_shards :: "coordinator \<Rightarrow> int list" where
  "get_missing_shards s = filter (\<lambda>i. i \<notin> set (live_ids s)) [0..total_shards s - 1]"

text \<open>
  Modelled from the spec: \<^verbatim>\<open>StateManager.send_alert\<close> of \<^verbatim>\<open>shardman/state.py\<close>,
  which is not among the sources. Section 6: a fire-and-forget notification whose
  failures never reach the caller; the alert is recorded in the state.
\<close>

definition send_alert :: "shard \<Rightarrow> alert_type \<Rightarrow> coordinator \<Rightarrow> coordinator" where
  "send_alert x a s = s\<lparr>alerts := alerts s @ [(a, x)]\<rparr>"

subsection \<open>Admission\<close>

text \<open>
  Lines 79 to 89 of \<^verbatim>\<open>connect\<close>, in three steps. \<open>open_window\<close> is the first
  \<^verbatim>\<open>if\<close>: a \<^verbatim>\<open>datetime\<close> is never falsy, so \<^verbatim>\<open>not next_halt_time\<close> holds exactly when
  the global is still \<^verbatim>\<open>None\<close>.
\<close>

definition open_window :: "datetime \<Rightarrow> coordinator \<Rightarrow> coordinator" where
  "open_window now s =
     (if (case next_halt_time s of None \<Rightarrow> True | Some t \<Rightarrow> t < now)
      then s\<lparr>next_halt_time := Some (now + timedelta_seconds 5), left_before_halt := 5\<rparr>
      else s)"

text \<open>
  \<open>admit\<close> returns \<^verbatim>\<open>sleep_duration\<close>, the final \<^verbatim>\<open>last_beat\<close> and the state. The
  decrement of line 89 is outside both \<^verbatim>\<open>if\<close>s and runs on every call.
\<close>

definition admit :: "datetime \<Rightarrow> coordinator \<Rightarrow> real \<times> datetime \<times> coordinator" where
  "admit now s =
     (let s1 = open_window now s;
          (sleep_duration, last_beat', s2) =
            (if left_before_halt s1 \<le> 0
             then (5, now + timedelta_seconds 5, s1\<lparr>left_before_halt := 5\<rparr>)
             else (0, now, s1))
      in (sleep_duration, last_beat', s2\<lparr>left_before_halt := left_before_halt s2 - 1\<rparr>))"

subsection \<open>The handlers\<close>

definition new_shard :: "int \<Rightarrow> string \<Rightarrow> datetime \<Rightarrow> shard" where
  "new_shard i sid t =
     \<lparr>shard_id = i, last_beat = t, session_id = sid\<rparr>"

definition connect ::
  "coordinator \<Rightarrow> datetime \<Rightarrow> string \<Rightarrow> (error + connect_confirmed) \<times> coordinator" where
  "connect s now ulid =
     (if count s \<ge> total_shards s then (Inl FleetFull, s)
      else case get_shard_id s of
        Inl e \<Rightarrow> (Inl e, s)
      | Inr i \<Rightarrow>
          (let (sleep_duration, last_beat', s1) = admit now s;
               x = new_shard i ulid last_beat';
               s2 = insert_shard x s1;
               s3 = send_alert x Connect s2
           in (Inr \<lparr>cc_shard_id = i, cc_max_shards = total_shards s,
                     cc_session_id = ulid, cc_sleep_duration = sleep_duration\<rparr>, s3)))"

text \<open>
  \<^verbatim>\<open>beat\<close>. Lines 121 to 124 assign to the document that \<^verbatim>\<open>find_one\<close> returned, in
  memory; only \<^verbatim>\<open>save()\<close> on line 125 would write it to the collection. Line 121 sets
  the declared field \<^verbatim>\<open>last_beat\<close>. Line 122 assigns \<^verbatim>\<open>guild_count\<close>, which
  \<^verbatim>\<open>Shard\<close> does not declare: the assignment raises \<^verbatim>\<open>ValueError\<close>, whatever value the
  heartbeat carries, so lines 123 to 125 never run and the collection keeps the document
  as it was.
\<close>

definition beat ::
  "coordinator \<Rightarrow> datetime \<Rightarrow> heartbeat \<Rightarrow> (error + unit) \<times> coordinator" where
  "beat s now hb =
     (case find_one (hb_session_id hb) (shards s) of
        None \<Rightarrow> (Inl SessionNotFound, s)
      | Some (k, x) \<Rightarrow>
          if shard_id x \<ge> total_shards s then (Inl FleetFull, s)
          else (Inl (ValueError ''guild_count''), s))"

definition disconnect :: "coordinator \<Rightarrow> sessionID \<Rightarrow> (error + unit) \<times> coordinator" where
  "disconnect s resp =
     (case find_one (sid_session_id resp) (shards s) of
        None \<Rightarrow> (Inl SessionNotFound, s)
      | Some (k, x) \<Rightarrow> (Inr (), delete_shard k s))"

definition re_register ::
  "coordinator \<Rightarrow> datetime \<Rightarrow> string \<Rightarrow> register \<Rightarrow> (error + connect_confirmed) \<times> coordinator"
  where
  "re_register s now ulid payload =
     (let missing_shards = get_missing_shards s in
      if reg_shard_id payload \<notin> set missing_shards then (Inl IdentityNotAvailable, s)
      else if reg_max_shards payload \<noteq> total_shards s then (Inl FleetSizeMismatch, s)
      else
        (let x = new_shard (reg_shard_id payload) ulid now;
             s1 = insert_shard x s;
             s2 = send_alert x Connect s1
         in (Inr \<lparr>cc_shard_id = reg_shard_id payload, cc_max_shards = total_shards s,
                   cc_session_id = ulid, cc_sleep_duration = 0\<rparr>, s2)))"

subsection \<open>Sequences of calls\<close>

text \<open>
  \<open>connects\<close> runs \<^verbatim>\<open>connect\<close> once for each arrival (the time read by the call
  and the session id it mints), in order, and lists each call's result with the state
  it leaves.
\<close>

fun connects ::
  "coordinator \<Rightarrow> (datetime \<times> string) list \<Rightarrow> ((error + connect_confirmed) \<times> coordinator) list"
  where
  "connects s [] = []"
| "connects s ((now, ulid) # cs) =
     (let (r, s') = connect s now ulid in (r, s') # connects s' cs)"

subsection \<open>Example states\<close>

text \<open>
  The coordinator with the given records and fleet size and the admission globals as
  the module initialises them (\<^verbatim>\<open>next_halt_time = None\<close>, \<^verbatim>\<open>left_before_halt = 5\<close>).
\<close>

definition fleet :: "shard list \<Rightarrow> int \<Rightarrow> coordinator" where
  "fleet xs n =
     \<lparr>shards = xs, total_shards = n, next_halt_time = None, left_before_halt = 5,
      alerts = []\<rparr>"

text \<open>Live identities 0, 1, 2 of 3: the fleet is full.\<close>

definition fleet_full :: coordinator where
  "fleet_full = fleet [new_shard 0 ''s0'' 0, new_shard 1 ''s1'' 0, new_shard 2 ''s2'' 0] 3"

text \<open>Live identities 0, 2, 3 of 5.\<close>

definition fleet_023 :: coordinator where
  "fleet_023 = fleet [new_shard 0 ''s0'' 0, new_shard 2 ''s2'' 0, new_shard 3 ''s3'' 0] 5"

text \<open>Live identities 0, 1, 3 of 5.\<close>

definition fleet_013 :: coordinator where
  "fleet_013 = fleet [new_shard 0 ''s0'' 0, new_shard 1 ''s1'' 0, new_shard 3 ''s3'' 0] 5"

text \<open>A fleet that shrank from 5 to 3 while identity 4 was live.\<close>

definition fleet_shrunk :: coordinator where
  "fleet_shrunk = fleet [new_shard 0 ''s0'' 0, new_shard 4 ''s4'' 0] 3"

text \<open>
  A window that ends at second 5 with every slot used, and room for ten shards.
\<close>

definition window_used :: coordinator where
  "window_used =
     \<lparr>shards = [], total_shards = 10, next_halt_time = Some (timedelta_seconds 5),
      left_before_halt = 0, alerts = []\<rparr>"

text \<open>Six arrivals within one second.\<close>

definition six_arrivals :: "(datetime \<times> string) list" where
  "six_arrivals =
     [(1000000, ''a''), (1100000, ''b''), (1200000, ''c''), (1300000, ''d''),
      (1400000, ''e''), (1500000, ''f'')]"


section \<open>Allocation always finds a free identity\<close>

lemma free_id_exists:
  assumes "count s < total_shards s"
  shows "\<exists>i \<in> set [0..total_shards s - 1]. i \<notin> set (live_ids s)"
proof (rule ccontr)
  assume "\<not> ?thesis"
  then have sub: "{0..total_shards s - 1} \<subseteq> set (live_ids s)"
    by auto
  have "card {0..total_shards s - 1} \<le> card (set (live_ids s))"
    by (rule card_mono [OF finite_set sub])
  also have "\<dots> \<le> length (live_ids s)"
    by (rule card_length)
  finally have "nat (total_shards s) \<le> length (shards s)"
    by (simp add: live_ids_def)
  with assms show False
    by (simp add: count_def)
qed

lemma scan_finds:
  assumes "count s < total_shards s"
  shows "\<exists>i. find (\<lambda>i. i \<notin> set (live_ids s)) [0..total_shards s - 1] = Some i"
proof (cases "find (\<lambda>i. i \<notin> set (live_ids s)) [0..total_shards s - 1]")
  case None
  then show ?thesis
    using free_id_exists [OF assms] by (simp add: find_None_iff)
next
  case (Some i)
  then show ?thesis by simp
qed

lemma get_shard_id_succeeds:
  assumes "count s < total_shards s"
  shows "\<exists>i. get_shard_id s = Inr i"
  using scan_finds [OF assms] assms by (auto simp: get_shard_id_def)


lemma connect_success:
  assumes "count s < total_shards s" and "get_shard_id s = Inr i"
  shows "connect s now ulid =
    (Inr \<lparr>cc_shard_id = i, cc_max_shards = total_shards s, cc_session_id = ulid,
          cc_sleep_duration = fst (admit now s)\<rparr>,
     send_alert (new_shard i ulid (fst (snd (admit now s)))) Connect
       (insert_shard (new_shard i ulid (fst (snd (admit now s)))) (snd (snd (admit now s)))))"
  using assms by (simp add: connect_def Let_def case_prod_beta)

lemma shards_after_insert [simp]:
  "shards (send_alert x a (insert_shard x s)) = shards s @ [x]"
  by (simp add: send_alert_def insert_shard_def)

lemma find_upto_least:
  assumes "find P [a..b] = Some i"
  shows "a \<le> i \<and> i \<le> b \<and> P i \<and> (\<forall>j. a \<le> j \<and> j < i \<longrightarrow> \<not> P j)"
proof -
  from assms obtain k where k: "k < length [a..b]" "P ([a..b] ! k)" "i = [a..b] ! k"
    "\<forall>m<k. \<not> P ([a..b] ! m)"
    by (auto simp: find_Some_iff)
  from k(1) have kb: "a + int k \<le> b" by simp
  then have ik: "i = a + int k" using k(3) by simp
  have "\<not> P j" if "a \<le> j" "j < i" for j
  proof -
    from that ik have "nat (j - a) < k" by linarith
    with k(4) have "\<not> P ([a..b] ! nat (j - a))" by blast
    moreover have "[a..b] ! nat (j - a) = j"
      using that ik kb by simp
    ultimately show ?thesis by simp
  qed
  with k(2,3) ik kb show ?thesis by auto
qed

section \<open>Connect and the fleet bound\<close>

text \<open>
  C1. A \<^verbatim>\<open>connect\<close> call that finds at least \<open>total_shards\<close> live records fails with
  \<^verbatim>\<open>FleetFull\<close> (401, "No Shards Available") and leaves the whole state as it was: no
  record inserted, no identity allocated. A call that finds fewer does not fail: it
  returns a confirmation.
\<close>

theorem connect_fleet_full:
  "(count s \<ge> total_shards s \<longrightarrow> connect s now ulid = (Inl FleetFull, s)) \<and>
   (count s < total_shards s \<longrightarrow>
      (\<exists>c. fst (connect s now ulid) = Inr c) \<and> fst (connect s now ulid) \<noteq> Inl FleetFull)"
proof (intro conjI impI)
  assume "count s \<ge> total_shards s"
  then show "connect s now ulid = (Inl FleetFull, s)"
    by (simp add: connect_def)
next
  assume lt: "count s < total_shards s"
  then obtain i where i: "get_shard_id s = Inr i"
    using get_shard_id_succeeds by blast
  from lt i show "\<exists>c. fst (connect s now ulid) = Inr c"
    by (simp add: connect_def Let_def split: prod.splits)
  then show "fst (connect s now ulid) \<noteq> Inl FleetFull"
    by auto
qed

theorem connect_fleet_full_witness:
  "count fleet_full \<ge> total_shards fleet_full \<and>
   connect fleet_full 7 ''u'' = (Inl FleetFull, fleet_full) \<and>
   count fleet_023 < total_shards fleet_023 \<and>
   (\<exists>c. fst (connect fleet_023 7 ''u'') = Inr c) \<and>
   fst (connect fleet_023 7 ''u'') \<noteq> Inl FleetFull"
  using connect_fleet_full [of fleet_full 7 "''u''"] connect_fleet_full [of fleet_023 7 "''u''"]
  by (simp add: fleet_full_def fleet_023_def fleet_def count_def)

section \<open>The allocated identity\<close>

lemma get_shard_id_fleet_023: "get_shard_id fleet_023 = Inr 1"
  by (simp add: fleet_023_def fleet_def count_def get_shard_id_def live_ids_def new_shard_def
      upto.simps)

text \<open>
  C2. With fewer than \<open>total_shards\<close> live records, allocation succeeds and the
  identity it returns, which \<^verbatim>\<open>connect\<close> hands back and stores in the new record, is
  the smallest integer of \<open>[0, total_shards)\<close> that no live record carries: it is in
  range, it is free, and every smaller identity from 0 on is live. With the live
  identities 0, 2, 3 and \<open>total_shards = 5\<close> it is 1.
\<close>

theorem allocate_lowest_free:
  assumes "count s < total_shards s"
  shows "\<exists>i c s'. get_shard_id s = Inr i \<and> connect s now ulid = (Inr c, s') \<and>
           cc_shard_id c = i \<and> shard_id (last (shards s')) = i \<and>
           0 \<le> i \<and> i < total_shards s \<and> i \<notin> set (live_ids s) \<and>
           (\<forall>j. 0 \<le> j \<and> j < i \<longrightarrow> j \<in> set (live_ids s))"
proof -
  from scan_finds [OF assms] obtain i
    where f: "find (\<lambda>i. i \<notin> set (live_ids s)) [0..total_shards s - 1] = Some i" by blast
  from find_upto_least [OF f]
  have low: "0 \<le> i" "i < total_shards s" "i \<notin> set (live_ids s)"
    "\<forall>j. 0 \<le> j \<and> j < i \<longrightarrow> j \<in> set (live_ids s)"
    by auto
  from assms f have g: "get_shard_id s = Inr i"
    by (simp add: get_shard_id_def)
  have "shard_id (last (shards (snd (connect s now ulid)))) = i"
    by (simp add: connect_success [OF assms g] new_shard_def)
  with g low connect_success [OF assms g, of now ulid] show ?thesis by auto
qed

theorem allocate_lowest_free_witness:
  "count fleet_023 < total_shards fleet_023 \<and> get_shard_id fleet_023 = Inr 1 \<and>
   (\<exists>c s'. connect fleet_023 7 ''u'' = (Inr c, s') \<and> cc_shard_id c = 1)"
  using allocate_lowest_free [of fleet_023 7 "''u''"] get_shard_id_fleet_023
  by (auto simp: fleet_023_def fleet_def count_def)

section \<open>The admission window\<close>

text \<open>
  What \<open>open_window\<close>, \<open>admit\<close> and \<^verbatim>\<open>connect\<close> do in the two situations a call
  can meet: a window that is still running (\<^verbatim>\<open>next_halt_time < last_beat\<close> is false),
  and no window or one that has ended.
\<close>

lemma open_window_active:
  "next_halt_time s = Some w \<Longrightarrow> now \<le> w \<Longrightarrow> open_window now s = s"
  by (simp add: open_window_def)

lemma open_window_expired:
  "next_halt_time s = None \<or> (\<exists>w. next_halt_time s = Some w \<and> w < now) \<Longrightarrow>
   open_window now s =
     s\<lparr>next_halt_time := Some (now + timedelta_seconds 5), left_before_halt := 5\<rparr>"
  by (auto simp: open_window_def)

lemma admit_active:
  "next_halt_time s = Some w \<Longrightarrow> now \<le> w \<Longrightarrow>
   admit now s =
     (if left_before_halt s \<le> 0
      then (5, now + timedelta_seconds 5, s\<lparr>left_before_halt := 4\<rparr>)
      else (0, now, s\<lparr>left_before_halt := left_before_halt s - 1\<rparr>))"
  by (simp add: admit_def open_window_active Let_def)

lemma admit_expired:
  "next_halt_time s = None \<or> (\<exists>w. next_halt_time s = Some w \<and> w < now) \<Longrightarrow>
   admit now s =
     (0, now, s\<lparr>next_halt_time := Some (now + timedelta_seconds 5), left_before_halt := 4\<rparr>)"
  by (simp add: admit_def open_window_expired Let_def)

lemma connect_active:
  assumes "count s < total_shards s" and "next_halt_time s = Some w" and "now \<le> w"
  shows "\<exists>c s'. connect s now ulid = (Inr c, s') \<and>
           cc_session_id c = ulid \<and>
           cc_sleep_duration c = (if left_before_halt s \<le> 0 then 5 else 0) \<and>
           shards s' = shards s @ [new_shard (cc_shard_id c) ulid
              (if left_before_halt s \<le> 0 then now + timedelta_seconds 5 else now)] \<and>
           left_before_halt s' = (if left_before_halt s \<le> 0 then 4 else left_before_halt s - 1) \<and>
           next_halt_time s' = Some w \<and> total_shards s' = total_shards s"
proof -
  from get_shard_id_succeeds [OF assms(1)] obtain i where i: "get_shard_id s = Inr i" ..
  show ?thesis
    using assms(2)
    by (simp add: connect_success [OF assms(1) i] admit_active [OF assms(2,3)]
        send_alert_def insert_shard_def)
qed

lemma connect_expired:
  assumes "count s < total_shards s"
    and "next_halt_time s = None \<or> (\<exists>w. next_halt_time s = Some w \<and> w < now)"
  shows "\<exists>c s'. connect s now ulid = (Inr c, s') \<and>
           cc_session_id c = ulid \<and> cc_sleep_duration c = 0 \<and>
           shards s' = shards s @ [new_shard (cc_shard_id c) ulid now] \<and>
           left_before_halt s' = 4 \<and>
           next_halt_time s' = Some (now + timedelta_seconds 5) \<and>
           total_shards s' = total_shards s"
proof -
  from get_shard_id_succeeds [OF assms(1)] obtain i where i: "get_shard_id s = Inr i" ..
  show ?thesis
    by (simp add: connect_success [OF assms(1) i] admit_expired [OF assms(2)]
        send_alert_def insert_shard_def)
qed

text \<open>
  Calls that all arrive while the window runs: with \<open>n\<close> slots left, the calls
  before the \<open>n\<close>-th (counted from 0) wait 0 and stamp their record with their arrival
  time; call \<open>n\<close> waits 5 and stamps its record five seconds later.
\<close>

lemma connects_in_window:
  assumes "next_halt_time s = Some w" and "\<forall>c \<in> set cs. fst c \<le> w"
    and "count s + int (length cs) \<le> total_shards s"
    and "left_before_halt s = int n" and "k < length cs"
  shows "\<exists>c s'. connects s cs ! k = (Inr c, s') \<and>
           (k < n \<longrightarrow> cc_sleep_duration c = 0 \<and>
              last (shards s') = new_shard (cc_shard_id c) (snd (cs ! k)) (fst (cs ! k))) \<and>
           (k = n \<longrightarrow> cc_sleep_duration c = 5 \<and>
              last (shards s') = new_shard (cc_shard_id c) (snd (cs ! k))
                (fst (cs ! k) + timedelta_seconds 5))"
  using assms
proof (induction cs arbitrary: s n k)
  case Nil
  then show ?case by simp
next
  case (Cons a cs)
  obtain now ulid where a: "a = (now, ulid)" by (cases a)
  from Cons.prems(3) have room: "count s < total_shards s" by simp
  from Cons.prems(2) a have now: "now \<le> w" by simp
  from connect_active [OF room Cons.prems(1) now, of ulid]
  obtain c0 s0 where c0: "connect s now ulid = (Inr c0, s0)"
    and sl: "cc_sleep_duration c0 = (if left_before_halt s \<le> 0 then 5 else 0)"
    and sh: "shards s0 = shards s @ [new_shard (cc_shard_id c0) ulid
              (if left_before_halt s \<le> 0 then now + timedelta_seconds 5 else now)]"
    and lf: "left_before_halt s0 = (if left_before_halt s \<le> 0 then 4 else left_before_halt s - 1)"
    and nh: "next_halt_time s0 = Some w" and tot: "total_shards s0 = total_shards s"
    by blast
  show ?case
  proof (cases k)
    case 0
    with c0 sl sh Cons.prems(4) a show ?thesis by auto
  next
    case (Suc k')
    define n0 where "n0 = (if n = 0 then 4 else n - 1)"
    have l0: "left_before_halt s0 = int n0"
      using lf Cons.prems(4) by (auto simp: n0_def)
    have cnt: "count s0 + int (length cs) \<le> total_shards s0"
      using Cons.prems(3) sh tot by (simp add: count_def)
    have w: "\<forall>c \<in> set cs. fst c \<le> w" using Cons.prems(2) by simp
    have k': "k' < length cs" using Cons.prems(5) Suc by simp
    from Cons.IH [OF nh w cnt l0 k']
    obtain c s' where r: "connects s0 cs ! k' = (Inr c, s')"
      and a0: "k' < n0 \<longrightarrow> cc_sleep_duration c = 0 \<and>
              last (shards s') = new_shard (cc_shard_id c) (snd (cs ! k')) (fst (cs ! k'))"
      and a1: "k' = n0 \<longrightarrow> cc_sleep_duration c = 5 \<and>
              last (shards s') = new_shard (cc_shard_id c) (snd (cs ! k'))
                (fst (cs ! k') + timedelta_seconds 5)"
      by blast
    have "connects s (a # cs) ! k = (Inr c, s')"
      using r c0 a Suc by simp
    moreover have "k < n \<Longrightarrow> k' < n0" and "k = n \<Longrightarrow> k' = n0"
      using Suc by (auto simp: n0_def)
    ultimately show ?thesis
      using a0 a1 Suc by auto
  qed
qed

lemma connects_idle:
  "map (map_sum id cc_sleep_duration \<circ> fst) (connects (fleet [] 10) six_arrivals) =
     [Inr 0, Inr 0, Inr 0, Inr 0, Inr 0, Inr 5] \<and>
   map (last_beat \<circ> last \<circ> shards \<circ> snd) (connects (fleet [] 10) six_arrivals) =
     [1000000, 1100000, 1200000, 1300000, 1400000, 6500000]"
  by (simp add: six_arrivals_def fleet_def connect_def count_def get_shard_id_def live_ids_def
      admit_def open_window_def insert_shard_def send_alert_def new_shard_def
      timedelta_seconds_def upto.simps Let_def)

text \<open>
  C3. Take the \<^verbatim>\<open>connect\<close> calls of one admission window: a first call, at time
  \<open>now\<close>, that finds no window or an ended one and so opens the window, followed by
  calls that arrive no later than its end \<open>now + 5 s\<close>, all of them with room in the
  fleet. The first five calls (\<open>k < 5\<close>) each get \<^verbatim>\<open>sleep_duration = 0\<close>, and the
  sixth (\<open>k = 5\<close>) gets \<^verbatim>\<open>sleep_duration = 5\<close>, the length of the window, and the
  record it creates has \<^verbatim>\<open>last_beat\<close> five seconds after its arrival.
\<close>

theorem window_admits_five:
  assumes "next_halt_time s = None \<or> (\<exists>w. next_halt_time s = Some w \<and> w < now)"
    and "\<forall>c \<in> set cs. fst c \<le> now + timedelta_seconds 5"
    and "count s + 1 + int (length cs) \<le> total_shards s"
    and "k < length ((now, ulid) # cs)"
  shows "\<exists>c s'. connects s ((now, ulid) # cs) ! k = (Inr c, s') \<and>
           (k < 5 \<longrightarrow> cc_sleep_duration c = 0 \<and>
              last_beat (last (shards s')) = fst (((now, ulid) # cs) ! k)) \<and>
           (k = 5 \<longrightarrow> cc_sleep_duration c = 5 \<and>
              cc_sleep_duration c * 1000000 = real_of_int (timedelta_seconds 5) \<and>
              last (shards s') = new_shard (cc_shard_id c) (snd (((now, ulid) # cs) ! k))
                (fst (((now, ulid) # cs) ! k) + timedelta_seconds 5))"
proof -
  from assms(3) have room: "count s < total_shards s" by simp
  from connect_expired [OF room assms(1), of ulid]
  obtain c0 s0 where c0: "connect s now ulid = (Inr c0, s0)"
    and sl: "cc_sleep_duration c0 = 0"
    and sh: "shards s0 = shards s @ [new_shard (cc_shard_id c0) ulid now]"
    and lf: "left_before_halt s0 = int 4"
    and nh: "next_halt_time s0 = Some (now + timedelta_seconds 5)"
    and tot: "total_shards s0 = total_shards s"
    by auto
  show ?thesis
  proof (cases k)
    case 0
    with c0 sl sh show ?thesis by (simp add: new_shard_def)
  next
    case (Suc k')
    have cnt: "count s0 + int (length cs) \<le> total_shards s0"
      using assms(3) sh tot by (simp add: count_def)
    have k': "k' < length cs" using assms(4) Suc by simp
    from connects_in_window [OF nh assms(2) cnt lf k']
    obtain c s' where r: "connects s0 cs ! k' = (Inr c, s')"
      and a0: "k' < 4 \<longrightarrow> cc_sleep_duration c = 0 \<and>
              last (shards s') = new_shard (cc_shard_id c) (snd (cs ! k')) (fst (cs ! k'))"
      and a1: "k' = 4 \<longrightarrow> cc_sleep_duration c = 5 \<and>
              last (shards s') = new_shard (cc_shard_id c) (snd (cs ! k'))
                (fst (cs ! k') + timedelta_seconds 5)"
      by blast
    have "connects s ((now, ulid) # cs) ! k = (Inr c, s')"
      using r c0 Suc by simp
    then show ?thesis
      using a0 a1 Suc by (auto simp: new_shard_def timedelta_seconds_def)
  qed
qed

theorem window_admits_five_witness:
  "next_halt_time (fleet [] 10) = None \<and>
   list_all (\<lambda>c. fst c \<le> 1000000 + timedelta_seconds 5) (tl six_arrivals) \<and>
   count (fleet [] 10) + 1 + int (length (tl six_arrivals)) \<le> total_shards (fleet [] 10) \<and>
   map (map_sum id cc_sleep_duration \<circ> fst) (connects (fleet [] 10) six_arrivals) =
     [Inr 0, Inr 0, Inr 0, Inr 0, Inr 0, Inr 5] \<and>
   (\<exists>c s'. connects (fleet [] 10) six_arrivals ! 5 = (Inr c, s') \<and>
      cc_sleep_duration c = 5 \<and> last_beat (last (shards s')) = 1500000 + 5000000)"
proof -
  have h: "next_halt_time (fleet [] 10) = None \<or>
      (\<exists>w. next_halt_time (fleet [] 10) = Some w \<and> w < 1000000)"
    "\<forall>c \<in> set (tl six_arrivals). fst c \<le> 1000000 + timedelta_seconds 5"
    "count (fleet [] 10) + 1 + int (length (tl six_arrivals)) \<le> total_shards (fleet [] 10)"
    "5 < length ((1000000, ''a'') # tl six_arrivals)"
    by (simp_all add: fleet_def six_arrivals_def timedelta_seconds_def count_def)
  have six: "(1000000, ''a'') # tl six_arrivals = six_arrivals"
    by (simp add: six_arrivals_def)
  from window_admits_five [OF h]
  have "\<exists>c s'. connects (fleet [] 10) six_arrivals ! 5 = (Inr c, s') \<and>
      cc_sleep_duration c = 5 \<and> last_beat (last (shards s')) = 1500000 + 5000000"
    unfolding six by (auto simp: six_arrivals_def new_shard_def timedelta_seconds_def)
  with h connects_idle show ?thesis
    by (simp add: fleet_def list_all_iff)
qed

lemma connects_window_used:
  "map (map_sum id cc_sleep_duration \<circ> fst) (connects window_used six_arrivals) =
     [Inr 5, Inr 0, Inr 0, Inr 0, Inr 0, Inr 5] \<and>
   map (left_before_halt \<circ> snd) (connects window_used six_arrivals) = [4, 3, 2, 1, 0, 4]"
  by (simp add: six_arrivals_def window_used_def connect_def count_def get_shard_id_def
      live_ids_def admit_def open_window_def insert_shard_def send_alert_def new_shard_def
      timedelta_seconds_def upto.simps Let_def)

text \<open>
  C4, as the code has it. A call that arrives while the window runs and finds
  \<^verbatim>\<open>left_before_halt <= 0\<close> is throttled: the counter is reset to 5, the call returns
  \<^verbatim>\<open>sleep_duration = 5\<close>, and the decrement of line 89 then takes one of the five
  slots for this call. So the counter is 4 after the throttled call, and the next four
  calls within the window each get \<^verbatim>\<open>sleep_duration = 0\<close>.
\<close>

theorem throttled_call_takes_slot:
  assumes "next_halt_time s = Some w" and "now \<le> w" and "left_before_halt s \<le> 0"
    and "\<forall>c \<in> set cs. fst c \<le> w" and "count s + 1 + int (length cs) \<le> total_shards s"
  shows "admit now s = (5, now + timedelta_seconds 5, s\<lparr>left_before_halt := 4\<rparr>) \<and>
         (\<exists>c s'. connects s ((now, ulid) # cs) ! 0 = (Inr c, s') \<and>
            cc_sleep_duration c = 5 \<and> left_before_halt s' = 4 \<and> next_halt_time s' = Some w) \<and>
         (\<forall>k < length cs. k < 4 \<longrightarrow>
            (\<exists>c s'. connects s ((now, ulid) # cs) ! Suc k = (Inr c, s') \<and>
               cc_sleep_duration c = 0))"
proof (intro conjI allI impI)
  show "admit now s = (5, now + timedelta_seconds 5, s\<lparr>left_before_halt := 4\<rparr>)"
    using assms(3) by (simp add: admit_active [OF assms(1,2)])
next
  from assms(5) have room: "count s < total_shards s" by simp
  from connect_active [OF room assms(1,2), of ulid] assms(3)
  obtain c0 s0 where c0: "connect s now ulid = (Inr c0, s0)"
    and sl: "cc_sleep_duration c0 = 5"
    and sh: "shards s0 = shards s @ [new_shard (cc_shard_id c0) ulid (now + timedelta_seconds 5)]"
    and lf: "left_before_halt s0 = int 4"
    and nh: "next_halt_time s0 = Some w"
    and tot: "total_shards s0 = total_shards s"
    by auto
  from c0 sl lf nh
  show "\<exists>c s'. connects s ((now, ulid) # cs) ! 0 = (Inr c, s') \<and>
            cc_sleep_duration c = 5 \<and> left_before_halt s' = 4 \<and> next_halt_time s' = Some w"
    by simp
  fix k assume k: "k < length cs" "k < 4"
  have cnt: "count s0 + int (length cs) \<le> total_shards s0"
    using assms(5) sh tot by (simp add: count_def)
  from connects_in_window [OF nh assms(4) cnt lf k(1)] k(2)
  obtain c s' where "connects s0 cs ! k = (Inr c, s')" "cc_sleep_duration c = 0"
    by auto
  with c0 show "\<exists>c s'. connects s ((now, ulid) # cs) ! Suc k = (Inr c, s') \<and>
               cc_sleep_duration c = 0"
    by simp
qed

theorem throttled_call_takes_slot_witness:
  "next_halt_time window_used = Some (timedelta_seconds 5) \<and>
   1000000 \<le> timedelta_seconds 5 \<and> left_before_halt window_used \<le> 0 \<and>
   list_all (\<lambda>c. fst c \<le> timedelta_seconds 5) (tl six_arrivals) \<and>
   count window_used + 1 + int (length (tl six_arrivals)) \<le> total_shards window_used \<and>
   admit 1000000 window_used =
     (5, 1000000 + timedelta_seconds 5, window_used\<lparr>left_before_halt := 4\<rparr>) \<and>
   (\<exists>c s'. connects window_used six_arrivals ! 0 = (Inr c, s') \<and>
      cc_sleep_duration c = 5 \<and> left_before_halt s' = 4) \<and>
   (\<exists>c s'. connects window_used six_arrivals ! 4 = (Inr c, s') \<and> cc_sleep_duration c = 0)"
proof -
  have h: "next_halt_time window_used = Some (timedelta_seconds 5)"
    "1000000 \<le> timedelta_seconds 5" "left_before_halt window_used \<le> 0"
    "\<forall>c \<in> set (tl six_arrivals). fst c \<le> timedelta_seconds 5"
    "count window_used + 1 + int (length (tl six_arrivals)) \<le> total_shards window_used"
    by (simp_all add: window_used_def six_arrivals_def timedelta_seconds_def count_def)
  have six: "(1000000, ''a'') # tl six_arrivals = six_arrivals"
    by (simp add: six_arrivals_def)
  have len: "3 < length (tl six_arrivals)" by (simp add: six_arrivals_def)
  note t = throttled_call_takes_slot [OF h, of "''a''", unfolded six]
  from t len have "\<exists>c s'. connects window_used six_arrivals ! Suc 3 = (Inr c, s') \<and>
      cc_sleep_duration c = 0"
    by auto
  then have "\<exists>c s'. connects window_used six_arrivals ! 4 = (Inr c, s') \<and>
      cc_sleep_duration c = 0"
    by (simp add: eval_nat_numeral)
  with t h show ?thesis by (auto simp: list_all_iff)
qed

text \<open>
  The specification has the throttled call consume no slot, so that the
  counter is 5 after it and the next five calls wait 0. In a window that ends at second
  5 with no slot left, six calls arrive from second 1 on: the first is throttled and
  leaves the counter at 4, and the fifth call after it is throttled again.
\<close>

theorem throttled_call_counterexample:
  "next_halt_time window_used = Some 5000000 \<and> left_before_halt window_used = 0 \<and>
   admit 1000000 window_used = (5, 6000000, window_used\<lparr>left_before_halt := 4\<rparr>) \<and>
   left_before_halt (snd (snd (admit 1000000 window_used))) \<noteq> 5 \<and>
   map (map_sum id cc_sleep_duration \<circ> fst) (connects window_used six_arrivals) =
     [Inr 5, Inr 0, Inr 0, Inr 0, Inr 0, Inr 5] \<and>
   map (left_before_halt \<circ> snd) (connects window_used six_arrivals) = [4, 3, 2, 1, 0, 4]"
  using connects_window_used
  by (simp add: window_used_def admit_def open_window_def timedelta_seconds_def Let_def)

text \<open>
  C5, as the code has it. A call that finds no window (\<^verbatim>\<open>next_halt_time\<close> is
  \<^verbatim>\<open>None\<close>) or arrives strictly after the window's end opens a new window:
  \<^verbatim>\<open>next_halt_time = now + 5 s\<close> and \<^verbatim>\<open>left_before_halt = 5\<close>; the call is admitted
  with \<^verbatim>\<open>sleep_duration = 0\<close> and takes one of the five slots, and its record is
  stamped with its arrival time. A call that arrives exactly at the window's end does
  not open a new window: the comparison of line 81 is strict.
\<close>

theorem new_window_after_end:
  "(next_halt_time s = None \<or> (\<exists>w. next_halt_time s = Some w \<and> w < now) \<longrightarrow>
      open_window now s =
        s\<lparr>next_halt_time := Some (now + timedelta_seconds 5), left_before_halt := 5\<rparr> \<and>
      admit now s =
        (0, now, s\<lparr>next_halt_time := Some (now + timedelta_seconds 5), left_before_halt := 4\<rparr>) \<and>
      (count s < total_shards s \<longrightarrow>
         (\<exists>c s'. connect s now ulid = (Inr c, s') \<and> cc_sleep_duration c = 0 \<and>
            next_halt_time s' = Some (now + timedelta_seconds 5) \<and>
            left_before_halt s' = 4 \<and> last_beat (last (shards s')) = now))) \<and>
   (next_halt_time s = Some now \<longrightarrow> open_window now s = s)"
proof (intro conjI impI)
  assume e: "next_halt_time s = None \<or> (\<exists>w. next_halt_time s = Some w \<and> w < now)"
  show "open_window now s =
        s\<lparr>next_halt_time := Some (now + timedelta_seconds 5), left_before_halt := 5\<rparr>"
    by (rule open_window_expired [OF e])
  show "admit now s =
        (0, now, s\<lparr>next_halt_time := Some (now + timedelta_seconds 5), left_before_halt := 4\<rparr>)"
    by (rule admit_expired [OF e])
  assume room: "count s < total_shards s"
  from connect_expired [OF room e, of ulid]
  show "\<exists>c s'. connect s now ulid = (Inr c, s') \<and> cc_sleep_duration c = 0 \<and>
            next_halt_time s' = Some (now + timedelta_seconds 5) \<and>
            left_before_halt s' = 4 \<and> last_beat (last (shards s')) = now"
    by (auto simp: new_shard_def)
next
  assume "next_halt_time s = Some now"
  then show "open_window now s = s"
    by (simp add: open_window_active)
qed

theorem new_window_after_end_witness:
  "next_halt_time (fleet [] 10) = None \<and>
   admit 1000000 (fleet [] 10) =
     (0, 1000000, (fleet [] 10)\<lparr>next_halt_time := Some 6000000, left_before_halt := 4\<rparr>) \<and>
   next_halt_time window_used = Some 5000000 \<and> (5000000 :: int) < 5000001 \<and>
   admit 5000001 window_used =
     (0, 5000001, window_used\<lparr>next_halt_time := Some 10000001, left_before_halt := 4\<rparr>) \<and>
   count window_used < total_shards window_used \<and>
   (\<exists>c s'. connect window_used 5000001 ''u'' = (Inr c, s') \<and> cc_sleep_duration c = 0 \<and>
      next_halt_time s' = Some 10000001 \<and> left_before_halt s' = 4) \<and>
   open_window 5000000 window_used = window_used"
proof -
  have h: "next_halt_time (fleet [] 10) = None"
    "next_halt_time window_used = Some 5000000" "(5000000 :: int) < 5000001"
    "count window_used < total_shards window_used"
    by (simp_all add: fleet_def window_used_def timedelta_seconds_def count_def)
  from new_window_after_end [of "fleet [] 10" 1000000 "''u''"]
    new_window_after_end [of window_used 5000001 "''u''"]
    new_window_after_end [of window_used 5000000 "''u''"] h
  show ?thesis
    by (auto simp: timedelta_seconds_def)
qed

text \<open>
  The specification also opens a new window for the call that arrives exactly at
  \<^verbatim>\<open>next_halt_time\<close>.
  In a window that ends at second 5 with no slot left, a call at second 5 opens no
  window: it is throttled, waits 5, and the window's end stays at second 5.
\<close>

theorem new_window_counterexample:
  "next_halt_time window_used = Some 5000000 \<and>
   open_window 5000000 window_used = window_used \<and>
   admit 5000000 window_used = (5, 10000000, window_used\<lparr>left_before_halt := 4\<rparr>) \<and>
   connect window_used 5000000 ''u'' =
     (Inr \<lparr>cc_shard_id = 0, cc_max_shards = 10, cc_session_id = ''u'', cc_sleep_duration = 5\<rparr>,
      window_used\<lparr>shards := [new_shard 0 ''u'' 10000000], left_before_halt := 4,
        alerts := [(Connect, new_shard 0 ''u'' 10000000)]\<rparr>) \<and>
   next_halt_time (snd (connect window_used 5000000 ''u'')) \<noteq> Some (5000000 + timedelta_seconds 5)"
  by (simp add: window_used_def connect_def count_def get_shard_id_def
      live_ids_def admit_def open_window_def insert_shard_def send_alert_def
      timedelta_seconds_def upto.simps Let_def)

section \<open>Re-registration\<close>

lemma set_get_missing_shards:
  "set (get_missing_shards s) = {i. 0 \<le> i \<and> i < total_shards s \<and> i \<notin> set (live_ids s)}"
  by (auto simp: get_missing_shards_def)

lemma missing_fleet_013: "get_missing_shards fleet_013 = [2, 4]"
  by (simp add: fleet_013_def fleet_def get_missing_shards_def live_ids_def new_shard_def
      upto.simps)

text \<open>
  C6. \<^verbatim>\<open>re_register\<close> checks its two conditions in order. An identity that is not
  among the missing ones is rejected with 409 "Shard Not Available"
  (\<^verbatim>\<open>IdentityNotAvailable\<close>) whatever \<^verbatim>\<open>max_shards\<close> the request claims; in particular
  a live identity is, also with a wrong \<^verbatim>\<open>max_shards\<close>. A missing identity with
  \<^verbatim>\<open>max_shards\<close> different from \<open>total_shards\<close> is rejected with 412 "Max Shards
  Mismatch" (\<^verbatim>\<open>FleetSizeMismatch\<close>). Otherwise the call succeeds. A rejected call
  leaves the state as it was.
\<close>

theorem re_register_check_order:
  "(reg_shard_id p \<notin> set (get_missing_shards s) \<longrightarrow>
      re_register s now ulid p = (Inl IdentityNotAvailable, s)) \<and>
   (reg_shard_id p \<in> set (live_ids s) \<longrightarrow>
      re_register s now ulid p = (Inl IdentityNotAvailable, s)) \<and>
   (reg_shard_id p \<in> set (get_missing_shards s) \<and> reg_max_shards p \<noteq> total_shards s \<longrightarrow>
      re_register s now ulid p = (Inl FleetSizeMismatch, s)) \<and>
   (reg_shard_id p \<in> set (get_missing_shards s) \<and> reg_max_shards p = total_shards s \<longrightarrow>
      (\<exists>c s'. re_register s now ulid p = (Inr c, s')))"
  by (simp add: re_register_def Let_def set_get_missing_shards)

theorem re_register_check_order_witness:
  "get_missing_shards fleet_013 = [2, 4] \<and> total_shards fleet_013 = 5 \<and>
   re_register fleet_013 7 ''u'' \<lparr>reg_shard_id = 1, reg_max_shards = 5, reg_active = True\<rparr>
     = (Inl IdentityNotAvailable, fleet_013) \<and>
   re_register fleet_013 7 ''u'' \<lparr>reg_shard_id = 1, reg_max_shards = 6, reg_active = True\<rparr>
     = (Inl IdentityNotAvailable, fleet_013) \<and>
   re_register fleet_013 7 ''u'' \<lparr>reg_shard_id = 2, reg_max_shards = 6, reg_active = True\<rparr>
     = (Inl FleetSizeMismatch, fleet_013) \<and>
   (\<exists>c s'. re_register fleet_013 7 ''u''
      \<lparr>reg_shard_id = 2, reg_max_shards = 5, reg_active = True\<rparr> = (Inr c, s'))"
  using
    re_register_check_order [of "\<lparr>reg_shard_id = 1, reg_max_shards = 5, reg_active = True\<rparr>"
      fleet_013 7 "''u''"]
    re_register_check_order [of "\<lparr>reg_shard_id = 1, reg_max_shards = 6, reg_active = True\<rparr>"
      fleet_013 7 "''u''"]
    re_register_check_order [of "\<lparr>reg_shard_id = 2, reg_max_shards = 6, reg_active = True\<rparr>"
      fleet_013 7 "''u''"]
    re_register_check_order [of "\<lparr>reg_shard_id = 2, reg_max_shards = 5, reg_active = True\<rparr>"
      fleet_013 7 "''u''"]
    missing_fleet_013
  by (simp add: fleet_013_def fleet_def)

text \<open>
  C7. A successful \<^verbatim>\<open>re_register\<close> appends one fresh record, at the requested
  identity, with the session id minted by this call and \<^verbatim>\<open>last_beat = now\<close>, and
  returns \<^verbatim>\<open>sleep_duration = 0\<close>. It leaves \<^verbatim>\<open>next_halt_time\<close> and
  \<^verbatim>\<open>left_before_halt\<close> as they were: no admission slot is consumed.
\<close>

theorem re_register_frame:
  assumes "re_register s now ulid p = (Inr c, s')"
  shows "shards s' = shards s @ [new_shard (reg_shard_id p) ulid now] \<and>
         session_id (last (shards s')) = ulid \<and>
         last_beat (last (shards s')) = now \<and>
         shard_id (last (shards s')) = reg_shard_id p \<and>
         next_halt_time s' = next_halt_time s \<and>
         left_before_halt s' = left_before_halt s \<and>
         total_shards s' = total_shards s \<and>
         c = \<lparr>cc_shard_id = reg_shard_id p, cc_max_shards = total_shards s,
               cc_session_id = ulid, cc_sleep_duration = 0\<rparr>"
  using assms
  by (auto simp: re_register_def Let_def send_alert_def insert_shard_def new_shard_def
      split: if_splits)

theorem re_register_frame_witness:
  "re_register fleet_013 7 ''u'' \<lparr>reg_shard_id = 2, reg_max_shards = 5, reg_active = True\<rparr>
     = (Inr \<lparr>cc_shard_id = 2, cc_max_shards = 5, cc_session_id = ''u'', cc_sleep_duration = 0\<rparr>,
        fleet_013\<lparr>shards := shards fleet_013 @ [new_shard 2 ''u'' 7],
                    alerts := [(Connect, new_shard 2 ''u'' 7)]\<rparr>) \<and>
   next_halt_time (fleet_013\<lparr>shards := shards fleet_013 @ [new_shard 2 ''u'' 7],
                    alerts := [(Connect, new_shard 2 ''u'' 7)]\<rparr>) = next_halt_time fleet_013 \<and>
   left_before_halt (fleet_013\<lparr>shards := shards fleet_013 @ [new_shard 2 ''u'' 7],
                    alerts := [(Connect, new_shard 2 ''u'' 7)]\<rparr>) = left_before_halt fleet_013"
proof -
  have r: "re_register fleet_013 7 ''u'' \<lparr>reg_shard_id = 2, reg_max_shards = 5, reg_active = True\<rparr>
     = (Inr \<lparr>cc_shard_id = 2, cc_max_shards = 5, cc_session_id = ''u'', cc_sleep_duration = 0\<rparr>,
        fleet_013\<lparr>shards := shards fleet_013 @ [new_shard 2 ''u'' 7],
                    alerts := [(Connect, new_shard 2 ''u'' 7)]\<rparr>)"
    by (simp add: re_register_def missing_fleet_013 Let_def insert_shard_def send_alert_def)
       (simp add: fleet_013_def fleet_def)
  from re_register_frame [OF r] r show ?thesis by simp
qed

section \<open>Heartbeat and disconnect\<close>

lemma find_one_None: "find_one sid xs = None \<longleftrightarrow> (\<forall>x \<in> set xs. session_id x \<noteq> sid)"
  by (induction xs) auto

lemma find_one_distinct:
  assumes "distinct (map session_id xs)" and "x \<in> set xs"
  shows "\<exists>k. find_one (session_id x) xs = Some (k, x)"
  using assms by (induction xs) (auto simp: image_iff)

text \<open>
  C8. For a session id that no live record carries, \<^verbatim>\<open>beat\<close> and \<^verbatim>\<open>disconnect\<close>
  both fail with 404 "Session Not Found" and leave the state, and so the live records,
  as they were.
\<close>

theorem unknown_session_not_found:
  assumes "\<forall>x \<in> set (shards s). session_id x \<noteq> t"
  shows "(hb_session_id hb = t \<longrightarrow> beat s now hb = (Inl SessionNotFound, s)) \<and>
         disconnect s \<lparr>sid_session_id = t\<rparr> = (Inl SessionNotFound, s)"
  using assms by (simp add: beat_def disconnect_def find_one_None [THEN iffD2])

theorem unknown_session_not_found_witness:
  "map session_id (shards fleet_013) = [''s0'', ''s1'', ''s3''] \<and>
   beat fleet_013 7 \<lparr>hb_session_id = ''s2'', hb_guild_count = Some 3, hb_latency = None,
     hb_extra = None\<rparr> = (Inl SessionNotFound, fleet_013) \<and>
   disconnect fleet_013 \<lparr>sid_session_id = ''s2''\<rparr> = (Inl SessionNotFound, fleet_013)"
proof -
  have h: "\<forall>x \<in> set (shards fleet_013). session_id x \<noteq> ''s2''"
    by (simp add: fleet_013_def fleet_def new_shard_def)
  from unknown_session_not_found [OF h, of "\<lparr>hb_session_id = ''s2'', hb_guild_count = Some 3,
     hb_latency = None, hb_extra = None\<rparr>" 7]
  show ?thesis by (simp add: fleet_013_def fleet_def new_shard_def)
qed


text \<open>
  C10. Session ids being unique among the live records, a heartbeat for a record
  whose \<^verbatim>\<open>shard_id\<close> is \<open>\<ge> total_shards\<close> fails with 401 "No Shards Available" and
  leaves the state as it was: the record keeps its \<^verbatim>\<open>last_beat\<close>.
\<close>

theorem beat_out_of_range:
  assumes "x \<in> set (shards s)" and "distinct (map session_id (shards s))"
    and "shard_id x \<ge> total_shards s" and "hb_session_id hb = session_id x"
  shows "beat s now hb = (Inl FleetFull, s)"
  using find_one_distinct [OF assms(2,1)] assms(3,4) by (auto simp: beat_def)

theorem beat_out_of_range_witness:
  "new_shard 4 ''s4'' 0 \<in> set (shards fleet_shrunk) \<and>
   distinct (map session_id (shards fleet_shrunk)) \<and>
   shard_id (new_shard 4 ''s4'' 0) \<ge> total_shards fleet_shrunk \<and>
   beat fleet_shrunk 9 \<lparr>hb_session_id = ''s4'', hb_guild_count = Some 3, hb_latency = None,
     hb_extra = None\<rparr> = (Inl (HTTPException 401 ''No Shards Available''), fleet_shrunk)"
proof -
  have h: "new_shard 4 ''s4'' 0 \<in> set (shards fleet_shrunk)"
    "distinct (map session_id (shards fleet_shrunk))"
    "shard_id (new_shard 4 ''s4'' 0) \<ge> total_shards fleet_shrunk"
    by (simp_all add: fleet_shrunk_def fleet_def new_shard_def)
  have e: "hb_session_id \<lparr>hb_session_id = ''s4'', hb_guild_count = Some 3, hb_latency = None,
     hb_extra = None\<rparr> = session_id (new_shard 4 ''s4'' 0)"
    by (simp add: new_shard_def)
  from beat_out_of_range [OF h e, of 9] h show ?thesis by simp
qed

end
